theory Spec2Isabelle
  imports Main "HOL-Library.Word"
begin

section \<open>The wrapper's own types (zerolog\_wrapper.go, lines 42--61)\<close>

text \<open>
  \<^verbatim>\<open>type LogLevel string\<close> and \<^verbatim>\<open>type Env string\<close>: both are string types, so a caller
  can pass any string, not only one of the declared constants.
\<close>

type_synonym LogLevel = string
type_synonym Env = string

definition TraceLevel :: LogLevel where "TraceLevel = ''trace''"
definition DebugLevel :: LogLevel where "DebugLevel = ''debug''"
definition InfoLevel :: LogLevel where "InfoLevel = ''info''"
definition WarnLevel :: LogLevel where "WarnLevel = ''warn''"
definition ErrorLevel :: LogLevel where "ErrorLevel = ''error''"
definition FatalLevel :: LogLevel where "FatalLevel = ''fatal''"
definition PanicLevel :: LogLevel where "PanicLevel = ''panic''"

definition Prod :: Env where "Prod = ''prod''"
definition Stage :: Env where "Stage = ''stage''"
definition QA :: Env where "QA = ''qa''"
definition Dev :: Env where "Dev = ''dev''"

section \<open>The logging engine (github.com/rs/zerolog), by its contract\<close>

text \<open>
  Modelled from the spec: the engine's severity levels. The engine is an external
  collaborator; the specification gives the seven levels and their order
  (trace < debug < info < warn < error < fatal < panic).
\<close>

datatype zerolog_Level =
    zerolog_TraceLevel
  | zerolog_DebugLevel
  | zerolog_InfoLevel
  | zerolog_WarnLevel
  | zerolog_ErrorLevel
  | zerolog_FatalLevel
  | zerolog_PanicLevel

fun severity :: "zerolog_Level \<Rightarrow> nat" where
  "severity zerolog_TraceLevel = 0"
| "severity zerolog_DebugLevel = 1"
| "severity zerolog_InfoLevel = 2"
| "severity zerolog_WarnLevel = 3"
| "severity zerolog_ErrorLevel = 4"
| "severity zerolog_FatalLevel = 5"
| "severity zerolog_PanicLevel = 6"

section \<open>Level resolution (the switch of InitLog, lines 83--100)\<close>

definition resolveLevel :: "LogLevel \<Rightarrow> zerolog_Level" where
  "resolveLevel logLevelStr =
     (if logLevelStr = TraceLevel then zerolog_TraceLevel
      else if logLevelStr = DebugLevel then zerolog_DebugLevel
      else if logLevelStr = InfoLevel then zerolog_InfoLevel
      else if logLevelStr = WarnLevel then zerolog_WarnLevel
      else if logLevelStr = ErrorLevel then zerolog_ErrorLevel
      else if logLevelStr = FatalLevel then zerolog_FatalLevel
      else if logLevelStr = PanicLevel then zerolog_PanicLevel
      else zerolog_InfoLevel)"

definition level_tags :: "LogLevel list" where
  "level_tags =
     [TraceLevel, DebugLevel, InfoLevel, WarnLevel, ErrorLevel, FatalLevel, PanicLevel]"

section \<open>The engine's writers, loggers and contexts\<close>

text \<open>
  Modelled from the spec: the two output targets. The default target is a writer bound
  to standard error that emits one structured record per line; the development target
  is a console-formatted writer bound to standard output. \<^verbatim>\<open>zerolog.MultiLevelWriter\<close>
  wraps the writers it is given.
\<close>

datatype os_File = os_Stdout | os_Stderr

datatype io_Writer =
    FileWriter os_File
  | zerolog_ConsoleWriter (Out: os_File) (TimeFormat: string)

datatype zerolog_LevelWriter = zerolog_MultiLevelWriter "io_Writer list"

definition time_RFC3339 :: string where
  "time_RFC3339 = ''2006-01-02T15:04:05Z07:00''"

type_synonym net_IP = "8 word list"

text \<open>
  Modelled from the spec: the base context of a logger is the set of fields attached to
  every record it emits: the automatic per-record timestamp, fixed fields such as
  \<^verbatim>\<open>host_ip\<close>, the automatic per-record caller capture, and whatever a context mutator
  adds. The items are kept in the order in which the builder chain adds them.
\<close>

datatype field =
    TimestampField
  | CallerField
  | IPAddrField string net_IP
  | StrField string string
  | ErrField string

text \<open>
  Modelled from the spec: a logger is bound to a writer, has a minimum severity and a
  base context. The Go zero value of the struct (the value of \<^verbatim>\<open>var Logger\<close> before
  initialization) has no writer and an empty context; its minimum severity is the zero
  of the engine's level type, debug.
\<close>

record zerolog_Logger =
  writer :: "zerolog_LevelWriter option"
  min_level :: zerolog_Level
  base_context :: "field list"

definition zero_Logger :: zerolog_Logger where
  "zero_Logger = \<lparr>writer = None, min_level = zerolog_DebugLevel, base_context = []\<rparr>"

datatype zerolog_Context = Context zerolog_Logger

definition zerolog_New :: "zerolog_LevelWriter \<Rightarrow> zerolog_Logger" where
  "zerolog_New out = \<lparr>writer = Some out, min_level = zerolog_TraceLevel, base_context = []\<rparr>"

text \<open>The builder methods take the receiver last, so a chain reads inside out.\<close>

definition Level :: "zerolog_Level \<Rightarrow> zerolog_Logger \<Rightarrow> zerolog_Logger" where
  "Level lvl l = l\<lparr>min_level := lvl\<rparr>"

definition With :: "zerolog_Logger \<Rightarrow> zerolog_Context" where
  "With l = Context l"

fun add_field :: "field \<Rightarrow> zerolog_Context \<Rightarrow> zerolog_Context" where
  "add_field f (Context l) = Context (l\<lparr>base_context := base_context l @ [f]\<rparr>)"

definition Timestamp :: "zerolog_Context \<Rightarrow> zerolog_Context" where
  "Timestamp c = add_field TimestampField c"

definition IPAddr :: "string \<Rightarrow> net_IP \<Rightarrow> zerolog_Context \<Rightarrow> zerolog_Context" where
  "IPAddr key ip c = add_field (IPAddrField key ip) c"

definition Caller :: "zerolog_Context \<Rightarrow> zerolog_Context" where
  "Caller c = add_field CallerField c"

definition Str :: "string \<Rightarrow> string \<Rightarrow> zerolog_Context \<Rightarrow> zerolog_Context" where
  "Str key val c = add_field (StrField key val) c"

fun Context_Logger :: "zerolog_Context \<Rightarrow> zerolog_Logger" where
  "Context_Logger (Context l) = l"

text \<open>
  Modelled from the spec: \<^verbatim>\<open>Logger.UpdateContext\<close> applies the transformation to the
  logger's base context and replaces that context in place; writer and minimum severity
  stay as they are.
\<close>

definition Logger_UpdateContext ::
  "(zerolog_Context \<Rightarrow> zerolog_Context) \<Rightarrow> zerolog_Logger \<Rightarrow> zerolog_Logger" where
  "Logger_UpdateContext update l =
     l\<lparr>base_context := base_context (Context_Logger (update (Context l)))\<rparr>"

section \<open>Events\<close>

text \<open>
  Modelled from the spec: a level-scoped entry point returns a record builder at that
  severity, bound to the logger it was started from. A builder that is never finalized
  produces no record: starting one is a silent no-op. A builder below the logger's
  minimum severity, or on a logger without a writer, is the nil builder.
\<close>

record zerolog_Event =
  ev_writer :: zerolog_LevelWriter
  ev_level :: zerolog_Level
  ev_fields :: "field list"

definition newEvent :: "zerolog_Logger \<Rightarrow> zerolog_Level \<Rightarrow> zerolog_Event option" where
  "newEvent l lvl =
     (case writer l of
        None \<Rightarrow> None
      | Some wr \<Rightarrow>
          if severity lvl < severity (min_level l) then None
          else Some \<lparr>ev_writer = wr, ev_level = lvl, ev_fields = base_context l\<rparr>)"

definition Logger_Trace :: "zerolog_Logger \<Rightarrow> zerolog_Event option" where
  "Logger_Trace l = newEvent l zerolog_TraceLevel"

definition Logger_Debug :: "zerolog_Logger \<Rightarrow> zerolog_Event option" where
  "Logger_Debug l = newEvent l zerolog_DebugLevel"

definition Logger_Info :: "zerolog_Logger \<Rightarrow> zerolog_Event option" where
  "Logger_Info l = newEvent l zerolog_InfoLevel"

definition Logger_Warn :: "zerolog_Logger \<Rightarrow> zerolog_Event option" where
  "Logger_Warn l = newEvent l zerolog_WarnLevel"

definition Logger_Error :: "zerolog_Logger \<Rightarrow> zerolog_Event option" where
  "Logger_Error l = newEvent l zerolog_ErrorLevel"

definition Logger_Fatal :: "zerolog_Logger \<Rightarrow> zerolog_Event option" where
  "Logger_Fatal l = newEvent l zerolog_FatalLevel"

definition Logger_Panic :: "zerolog_Logger \<Rightarrow> zerolog_Event option" where
  "Logger_Panic l = newEvent l zerolog_PanicLevel"

definition Event_Err :: "string \<Rightarrow> zerolog_Event option \<Rightarrow> zerolog_Event option" where
  "Event_Err err e = map_option (\<lambda>ev. ev\<lparr>ev_fields := ev_fields ev @ [ErrField err]\<rparr>) e"

definition Event_Str ::
  "string \<Rightarrow> string \<Rightarrow> zerolog_Event option \<Rightarrow> zerolog_Event option" where
  "Event_Str key val e =
     map_option (\<lambda>ev. ev\<lparr>ev_fields := ev_fields ev @ [StrField key val]\<rparr>) e"

section \<open>The process: package variables and the world they touch\<close>

datatype panic_value = NilPointerDereference | PanicMessage string

text \<open>
  How a call ends: it returns, it panics (Go unwinds the stack), or the process exits
  with a status (\<^verbatim>\<open>os.Exit\<close>).
\<close>

datatype 'a outcome = Returned 'a | Panicked panic_value | Exited nat

record net_Conn =
  LocalAddr_IP :: net_IP

record log_line =
  line_writer :: zerolog_LevelWriter
  line_level :: zerolog_Level
  line_fields :: "field list"
  line_message :: string

text \<open>
  The package variables \<^verbatim>\<open>once\<close> and \<^verbatim>\<open>Logger\<close>, the engine's global
  \<^verbatim>\<open>zerolog.CallerMarshalFunc\<close>, and the part of the world the code reads and writes:
  the network (\<^verbatim>\<open>net.Dial\<close>, by network and address, with the error text on failure),
  the list of connections dialled so far, the working directory (\<open>None\<close> when
  \<^verbatim>\<open>os.Getwd\<close> fails) and the records written so far. The caller formatter is a
  function of the working directory at the time it is called, the program counter, the
  file and the line.
\<close>

record proc =
  once_done :: bool
  Logger :: zerolog_Logger
  CallerMarshalFunc :: "string option \<Rightarrow> nat \<Rightarrow> string \<Rightarrow> int \<Rightarrow> string"
  net_Dial :: "string \<Rightarrow> string \<Rightarrow> string + net_Conn"
  dialled :: "(string \<times> string) list"
  cwd :: "string option"
  written :: "log_line list"

text \<open>
  Modelled from the spec: finalizing a builder emits its record; a fatal record then
  terminates the process and a panic record raises a panic. The nil builder emits
  nothing.
\<close>

definition Msg :: "string \<Rightarrow> zerolog_Event option \<Rightarrow> proc \<Rightarrow> unit outcome \<times> proc" where
  "Msg m e st =
     (case e of
        None \<Rightarrow> (Returned (), st)
      | Some ev \<Rightarrow>
          (let st' = st\<lparr>written := written st @
                 [\<lparr>line_writer = ev_writer ev, line_level = ev_level ev,
                   line_fields = ev_fields ev, line_message = m\<rparr>]\<rparr>
           in if ev_level ev = zerolog_FatalLevel then (Exited 1, st')
              else if ev_level ev = zerolog_PanicLevel then (Panicked (PanicMessage m), st')
              else (Returned (), st')))"

text \<open>
  An expression statement: the value is computed and dropped, the state stays as it is.
\<close>

definition discard :: "'a \<Rightarrow> proc \<Rightarrow> proc" where
  "discard v st = st"

section \<open>Standard library functions the wrapper calls\<close>

text \<open>
  \<^verbatim>\<open>strings.TrimPrefix(s, prefix)\<close>: \<open>s\<close> without the leading \<open>prefix\<close>, and \<open>s\<close> itself
  when it does not start with \<open>prefix\<close>.
\<close>

definition strings_HasPrefix :: "string \<Rightarrow> string \<Rightarrow> bool" where
  "strings_HasPrefix s pre = (length pre \<le> length s \<and> take (length pre) s = pre)"

definition strings_TrimPrefix :: "string \<Rightarrow> string \<Rightarrow> string" where
  "strings_TrimPrefix s pre = (if strings_HasPrefix s pre then drop (length pre) s else s)"

text \<open>\<^verbatim>\<open>strconv.Itoa\<close>: the decimal representation, with a minus sign below zero.\<close>

definition digit_char :: "nat \<Rightarrow> char" where
  "digit_char d = ''0123456789'' ! d"

fun decimal :: "nat \<Rightarrow> string" where
  "decimal n = (if n < 10 then [digit_char n] else decimal (n div 10) @ [digit_char (n mod 10)])"

declare decimal.simps [simp del]

definition strconv_Itoa :: "int \<Rightarrow> string" where
  "strconv_Itoa i = (if i < 0 then CHR ''-'' # decimal (nat (- i)) else decimal (nat i))"

text \<open>
  \<^verbatim>\<open>os.Getwd\<close> returns the directory and an error; on failure the directory is the
  empty string.
\<close>

definition os_Getwd :: "string option \<Rightarrow> string \<times> string option" where
  "os_Getwd wd = (case wd of None \<Rightarrow> ([], Some ''getwd'') | Some d \<Rightarrow> (d, None))"

text \<open>
  \<^verbatim>\<open>sync.Once.Do\<close>, by its documentation: the function runs only if \<open>Do\<close> has not been
  called before on this \<open>Once\<close>; when the function panics, \<open>Do\<close> counts as returned and
  later calls do not run their function.
\<close>

definition once_Do :: "(proc \<Rightarrow> unit outcome \<times> proc) \<Rightarrow> proc \<Rightarrow> unit outcome \<times> proc" where
  "once_Do f st =
     (if once_done st then (Returned (), st)
      else (case f st of
              (Exited n, st') \<Rightarrow> (Exited n, st')
            | (r, st') \<Rightarrow> (r, st'\<lparr>once_done := True\<rparr>)))"

section \<open>getLocalIP (lines 68--76)\<close>

text \<open>
  \<^verbatim>\<open>net.Dial\<close> returns a nil connection together with a non-nil error. On the error
  branch the code starts a fatal event and adds the error to it, as an expression
  statement, and falls through to \<^verbatim>\<open>defer conn.Close()\<close>, which calls a method on the
  nil connection.
\<close>

definition getLocalIP :: "proc \<Rightarrow> net_IP outcome \<times> proc" where
  "getLocalIP st =
     (let st1 = st\<lparr>dialled := dialled st @ [(''udp'', ''1.1.1.1:53'')]\<rparr>
      in case net_Dial st ''udp'' ''1.1.1.1:53'' of
           Inl err \<Rightarrow>
             (let st2 = discard (Event_Err err (Logger_Fatal (Logger st1))) st1
              in (Panicked NilPointerDereference, st2))
         | Inr conn \<Rightarrow> (Returned (LocalAddr_IP conn), st1))"

section \<open>InitLog (lines 79--131)\<close>

text \<open>Lines 81--112: the level and the output target.\<close>

definition resolveConfig :: "LogLevel \<Rightarrow> Env \<Rightarrow> zerolog_Level \<times> zerolog_LevelWriter" where
  "resolveConfig logLevelStr appEnv =
     (let logLevel = resolveLevel logLevelStr;
          output = zerolog_MultiLevelWriter [FileWriter os_Stderr]
      in if appEnv = Dev then
           (let consoleOutput = zerolog_ConsoleWriter os_Stdout time_RFC3339
            in (zerolog_TraceLevel, zerolog_MultiLevelWriter [consoleOutput]))
         else (logLevel, output))"

text \<open>Lines 115--120: the function assigned to \<^verbatim>\<open>zerolog.CallerMarshalFunc\<close>.\<close>

definition shortCaller :: "string option \<Rightarrow> nat \<Rightarrow> string \<Rightarrow> int \<Rightarrow> string" where
  "shortCaller wd pc file line =
     (let curDir = fst (os_Getwd wd);
          shortPath = strings_TrimPrefix file (curDir @ ''/'')
      in shortPath @ '':'' @ strconv_Itoa line)"

text \<open>Lines 122--128: the builder chain, given the host address.\<close>

definition buildLogger ::
  "zerolog_LevelWriter \<Rightarrow> zerolog_Level \<Rightarrow> net_IP \<Rightarrow> zerolog_Logger" where
  "buildLogger output logLevel ip =
     Context_Logger
       (Caller (IPAddr ''host_ip'' ip (Timestamp (With (Level logLevel (zerolog_New output))))))"

text \<open>
  The function passed to \<^verbatim>\<open>once.Do\<close>. The receiver of \<^verbatim>\<open>IPAddr\<close> is evaluated before
  its argument \<^verbatim>\<open>getLocalIP()\<close>, and the assignment to \<^verbatim>\<open>Logger\<close> happens only when the
  whole chain has returned.
\<close>

definition InitLog_body :: "LogLevel \<Rightarrow> Env \<Rightarrow> proc \<Rightarrow> unit outcome \<times> proc" where
  "InitLog_body logLevelStr appEnv st =
     (case resolveConfig logLevelStr appEnv of
        (logLevel, output) \<Rightarrow>
          (let st1 = st\<lparr>CallerMarshalFunc := shortCaller\<rparr>
           in case getLocalIP st1 of
                (Returned ip, st2) \<Rightarrow>
                  (let st3 = st2\<lparr>Logger := buildLogger output logLevel ip\<rparr>;
                       st4 = discard (Caller (With (Logger st3))) st3
                   in (Returned (), st4))
              | (Panicked p, st2) \<Rightarrow> (Panicked p, st2)
              | (Exited n, st2) \<Rightarrow> (Exited n, st2)))"

definition InitLog :: "LogLevel \<Rightarrow> Env \<Rightarrow> proc \<Rightarrow> unit outcome \<times> proc" where
  "InitLog logLevelStr appEnv st = once_Do (InitLog_body logLevelStr appEnv) st"

text \<open>
  A run of calls to InitLog, one after the other, each with its own arguments; a caller
  that recovers from a panic goes on with the next call.
\<close>

fun InitLog_calls :: "(LogLevel \<times> Env) list \<Rightarrow> proc \<Rightarrow> proc" where
  "InitLog_calls [] st = st"
| "InitLog_calls ((l, e) # cs) st = InitLog_calls cs (snd (InitLog l e st))"

section \<open>UpdateContext and the level-scoped entry points (lines 143--194)\<close>

definition UpdateContext :: "(zerolog_Context \<Rightarrow> zerolog_Context) \<Rightarrow> proc \<Rightarrow> proc" where
  "UpdateContext update st = st\<lparr>Logger := Logger_UpdateContext update (Logger st)\<rparr>"

definition Trace :: "proc \<Rightarrow> zerolog_Event option" where
  "Trace st = Logger_Trace (Logger st)"

definition Debug :: "proc \<Rightarrow> zerolog_Event option" where
  "Debug st = Logger_Debug (Logger st)"

definition Info :: "proc \<Rightarrow> zerolog_Event option" where
  "Info st = Logger_Info (Logger st)"

definition Warn :: "proc \<Rightarrow> zerolog_Event option" where
  "Warn st = Logger_Warn (Logger st)"

definition Error :: "proc \<Rightarrow> zerolog_Event option" where
  "Error st = Logger_Error (Logger st)"

definition Fatal :: "proc \<Rightarrow> zerolog_Event option" where
  "Fatal st = Logger_Fatal (Logger st)"

definition Panic :: "proc \<Rightarrow> zerolog_Event option" where
  "Panic st = Logger_Panic (Logger st)"

section \<open>The earlier version of InitLog (lines 73--106 of the earlier source)\<close>

definition resolveLevel_prev :: "LogLevel \<Rightarrow> zerolog_Level" where
  "resolveLevel_prev logLevelStr =
     (if logLevelStr = TraceLevel then zerolog_TraceLevel
      else if logLevelStr = DebugLevel then zerolog_DebugLevel
      else if logLevelStr = InfoLevel then zerolog_InfoLevel
      else if logLevelStr = WarnLevel then zerolog_WarnLevel
      else if logLevelStr = ErrorLevel then zerolog_ErrorLevel
      else if logLevelStr = FatalLevel then zerolog_FatalLevel
      else if logLevelStr = PanicLevel then zerolog_PanicLevel
      else zerolog_InfoLevel)"

definition resolveConfig_prev :: "LogLevel \<Rightarrow> Env \<Rightarrow> zerolog_Level \<times> zerolog_LevelWriter" where
  "resolveConfig_prev logLevelStr appEnv =
     (let logLevel = resolveLevel_prev logLevelStr;
          output = zerolog_MultiLevelWriter [FileWriter os_Stderr]
      in if appEnv = Dev then
           (let consoleOutput = zerolog_ConsoleWriter os_Stdout time_RFC3339
            in (zerolog_TraceLevel, zerolog_MultiLevelWriter [consoleOutput]))
         else (logLevel, output))"

text \<open>
  The earlier chain converts the level before it is set, \<^verbatim>\<open>Level(zerolog.Level(logLevel))\<close>;
  the variable already has that type, so the conversion returns its argument.
\<close>

definition zerolog_Level_conv :: "zerolog_Level \<Rightarrow> zerolog_Level" where
  "zerolog_Level_conv lvl = lvl"

definition buildLogger_prev ::
  "zerolog_LevelWriter \<Rightarrow> zerolog_Level \<Rightarrow> net_IP \<Rightarrow> zerolog_Logger" where
  "buildLogger_prev output logLevel ip =
     Context_Logger
       (Caller (IPAddr ''host_ip'' ip
          (Timestamp (With (Level (zerolog_Level_conv logLevel) (zerolog_New output))))))"

section \<open>The caller formatter as the specification words it\<close>

text \<open>
  The specification's formatter: the working directory is captured once, when the
  formatter is installed, and every later rendering strips that captured directory.
\<close>

definition shortCaller_captured :: "string \<Rightarrow> string \<Rightarrow> int \<Rightarrow> string" where
  "shortCaller_captured captured file line =
     strings_TrimPrefix file (captured @ ''/'') @ '':'' @ strconv_Itoa line"

section \<open>The process at start, and the world around it\<close>

text \<open>
  The engine's formatter before InitLog replaces it (file and line, unshortened). The
  repository never reads it.
\<close>

definition zerolog_CallerMarshalFunc_initial ::
  "string option \<Rightarrow> nat \<Rightarrow> string \<Rightarrow> int \<Rightarrow> string" where
  "zerolog_CallerMarshalFunc_initial wd pc file line = file @ '':'' @ strconv_Itoa line"

text \<open>
  A process that has not called InitLog yet: \<^verbatim>\<open>once\<close> and \<^verbatim>\<open>Logger\<close> are zero values,
  nothing has been dialled or written.
\<close>

definition start_proc :: "(string \<Rightarrow> string \<Rightarrow> string + net_Conn) \<Rightarrow> string option \<Rightarrow> proc" where
  "start_proc dial wd =
     \<lparr>once_done = False, Logger = zero_Logger,
      CallerMarshalFunc = zerolog_CallerMarshalFunc_initial,
      net_Dial = dial, dialled = [], cwd = wd, written = []\<rparr>"

text \<open>A network on which every dial succeeds from the given local address, and one on
  which every dial fails.\<close>

definition net_up :: "net_IP \<Rightarrow> string \<Rightarrow> string \<Rightarrow> string + net_Conn" where
  "net_up ip network address = Inr \<lparr>LocalAddr_IP = ip\<rparr>"

definition net_down :: "string \<Rightarrow> string \<Rightarrow> string + net_Conn" where
  "net_down network address = Inl ''connect: network is unreachable''"

text \<open>\<^verbatim>\<open>os.Chdir\<close>: the process changes its working directory.\<close>

definition os_Chdir :: "string \<Rightarrow> proc \<Rightarrow> proc" where
  "os_Chdir dir st = st\<lparr>cwd := Some dir\<rparr>"

text \<open>
  The engine renders the caller field of a record by calling the global formatter, in
  the process as it is when the record is rendered.
\<close>

definition render_caller :: "proc \<Rightarrow> nat \<Rightarrow> string \<Rightarrow> int \<Rightarrow> string" where
  "render_caller st pc file line = CallerMarshalFunc st (cwd st) pc file line"

text \<open>The entry point of the wrapper for each severity.\<close>

fun entry_point :: "zerolog_Level \<Rightarrow> proc \<Rightarrow> zerolog_Event option" where
  "entry_point zerolog_TraceLevel st = Trace st"
| "entry_point zerolog_DebugLevel st = Debug st"
| "entry_point zerolog_InfoLevel st = Info st"
| "entry_point zerolog_WarnLevel st = Warn st"
| "entry_point zerolog_ErrorLevel st = Error st"
| "entry_point zerolog_FatalLevel st = Fatal st"
| "entry_point zerolog_PanicLevel st = Panic st"

section \<open>Level resolution: the seven tags and the default\<close>

lemmas LogLevel_defs =
  TraceLevel_def DebugLevel_def InfoLevel_def WarnLevel_def ErrorLevel_def
  FatalLevel_def PanicLevel_def

lemmas Env_defs = Prod_def Stage_def QA_def Dev_def

lemma resolveLevel_tags:
  "map resolveLevel level_tags =
     [zerolog_TraceLevel, zerolog_DebugLevel, zerolog_InfoLevel, zerolog_WarnLevel,
      zerolog_ErrorLevel, zerolog_FatalLevel, zerolog_PanicLevel]"
  by (simp add: level_tags_def resolveLevel_def LogLevel_defs)

lemma resolveLevel_default:
  "s \<notin> set level_tags \<Longrightarrow> resolveLevel s = zerolog_InfoLevel"
  by (simp add: level_tags_def resolveLevel_def)

lemma resolveLevel_inj: "inj_on resolveLevel (set level_tags)"
proof -
  have "distinct (map resolveLevel level_tags)"
    unfolding resolveLevel_tags by simp
  then show ?thesis
    by (simp add: distinct_map)
qed

lemma set_level_tags:
  "set level_tags = {''trace'', ''debug'', ''info'', ''warn'', ''error'', ''fatal'', ''panic''}"
  by (simp add: level_tags_def LogLevel_defs)

text \<open>
  C4. Level resolution sends each of the seven tags trace, debug, info, warn, error,
  fatal and panic to the engine level of the same name, is one-to-one on these seven
  tags, and sends every other string to info.
\<close>

theorem C4_level_resolution:
  "resolveLevel ''trace'' = zerolog_TraceLevel \<and>
   resolveLevel ''debug'' = zerolog_DebugLevel \<and>
   resolveLevel ''info'' = zerolog_InfoLevel \<and>
   resolveLevel ''warn'' = zerolog_WarnLevel \<and>
   resolveLevel ''error'' = zerolog_ErrorLevel \<and>
   resolveLevel ''fatal'' = zerolog_FatalLevel \<and>
   resolveLevel ''panic'' = zerolog_PanicLevel \<and>
   inj_on resolveLevel {''trace'', ''debug'', ''info'', ''warn'', ''error'', ''fatal'', ''panic''} \<and>
   (s \<notin> {''trace'', ''debug'', ''info'', ''warn'', ''error'', ''fatal'', ''panic''}
      \<longrightarrow> resolveLevel s = zerolog_InfoLevel)"
proof (intro conjI impI)
  show "inj_on resolveLevel
      {''trace'', ''debug'', ''info'', ''warn'', ''error'', ''fatal'', ''panic''}"
    using resolveLevel_inj by (simp only: set_level_tags)
  show "resolveLevel s = zerolog_InfoLevel"
    if "s \<notin> {''trace'', ''debug'', ''info'', ''warn'', ''error'', ''fatal'', ''panic''}"
  proof (rule resolveLevel_default)
    show "s \<notin> set level_tags"
      using that by (simp only: set_level_tags not_False_eq_True)
  qed
qed (simp_all add: resolveLevel_def LogLevel_defs)

theorem C4_level_resolution_witness:
  "''verbose'' \<notin> {''trace'', ''debug'', ''info'', ''warn'', ''error'', ''fatal'', ''panic''} \<and>
   resolveLevel ''verbose'' = zerolog_InfoLevel \<and>
   resolveLevel ''INFO'' = zerolog_InfoLevel \<and>
   resolveLevel '''' = zerolog_InfoLevel"
  using C4_level_resolution [of "''verbose''"] C4_level_resolution [of "''INFO''"]
    C4_level_resolution [of "''''"]
  by simp

section \<open>Helper lemmas on the initializer\<close>

lemma getLocalIP_ok:
  "net_Dial st ''udp'' ''1.1.1.1:53'' = Inr conn \<Longrightarrow>
   getLocalIP st =
     (Returned (LocalAddr_IP conn), st\<lparr>dialled := dialled st @ [(''udp'', ''1.1.1.1:53'')]\<rparr>)"
  by (simp add: getLocalIP_def)

lemma getLocalIP_fail:
  "net_Dial st ''udp'' ''1.1.1.1:53'' = Inl err \<Longrightarrow>
   getLocalIP st =
     (Panicked NilPointerDereference,
      st\<lparr>dialled := dialled st @ [(''udp'', ''1.1.1.1:53'')]\<rparr>)"
  by (simp add: getLocalIP_def discard_def)

lemma getLocalIP_not_Exited: "fst (getLocalIP st) \<noteq> Exited n"
  by (cases "net_Dial st ''udp'' ''1.1.1.1:53''") (simp_all add: getLocalIP_ok getLocalIP_fail)

lemma InitLog_body_ok:
  assumes "net_Dial st ''udp'' ''1.1.1.1:53'' = Inr conn"
  shows "InitLog_body l e st =
     (Returned (),
      st\<lparr>CallerMarshalFunc := shortCaller,
         dialled := dialled st @ [(''udp'', ''1.1.1.1:53'')],
         Logger := buildLogger (snd (resolveConfig l e)) (fst (resolveConfig l e))
                     (LocalAddr_IP conn)\<rparr>)"
proof -
  have dial: "net_Dial (st\<lparr>CallerMarshalFunc := shortCaller\<rparr>) ''udp'' ''1.1.1.1:53'' = Inr conn"
    using assms by simp
  show ?thesis
    by (simp add: InitLog_body_def getLocalIP_ok [OF dial] discard_def split: prod.split)
qed

lemma InitLog_body_fail:
  assumes "net_Dial st ''udp'' ''1.1.1.1:53'' = Inl err"
  shows "InitLog_body l e st =
     (Panicked NilPointerDereference,
      st\<lparr>CallerMarshalFunc := shortCaller,
         dialled := dialled st @ [(''udp'', ''1.1.1.1:53'')]\<rparr>)"
proof -
  have dial: "net_Dial (st\<lparr>CallerMarshalFunc := shortCaller\<rparr>) ''udp'' ''1.1.1.1:53'' = Inl err"
    using assms by simp
  show ?thesis
    by (simp add: InitLog_body_def getLocalIP_fail [OF dial] split: prod.split)
qed

lemma InitLog_done: "once_done st \<Longrightarrow> InitLog l e st = (Returned (), st)"
  by (simp add: InitLog_def once_Do_def)

lemma InitLog_first_ok:
  assumes "\<not> once_done st" and "net_Dial st ''udp'' ''1.1.1.1:53'' = Inr conn"
  shows "InitLog l e st =
     (Returned (),
      st\<lparr>CallerMarshalFunc := shortCaller,
         dialled := dialled st @ [(''udp'', ''1.1.1.1:53'')],
         Logger := buildLogger (snd (resolveConfig l e)) (fst (resolveConfig l e))
                     (LocalAddr_IP conn),
         once_done := True\<rparr>)"
  using assms(1) by (simp add: InitLog_def once_Do_def InitLog_body_ok [OF assms(2)])

lemma InitLog_first_fail:
  assumes "\<not> once_done st" and "net_Dial st ''udp'' ''1.1.1.1:53'' = Inl err"
  shows "InitLog l e st =
     (Panicked NilPointerDereference,
      st\<lparr>CallerMarshalFunc := shortCaller,
         dialled := dialled st @ [(''udp'', ''1.1.1.1:53'')],
         once_done := True\<rparr>)"
  using assms(1) by (simp add: InitLog_def once_Do_def InitLog_body_fail [OF assms(2)])

lemma InitLog_sets_done: "once_done (snd (InitLog l e st))"
proof (cases "once_done st")
  case True
  then show ?thesis by (simp add: InitLog_done)
next
  case False
  show ?thesis
  proof (cases "net_Dial st ''udp'' ''1.1.1.1:53''")
    case (Inl err)
    then show ?thesis by (simp add: InitLog_first_fail [OF False])
  next
    case (Inr conn)
    then show ?thesis by (simp add: InitLog_first_ok [OF False])
  qed
qed

lemma InitLog_dialled:
  "dialled (snd (InitLog l e st)) =
     (if once_done st then dialled st else dialled st @ [(''udp'', ''1.1.1.1:53'')])"
proof (cases "once_done st")
  case True
  then show ?thesis by (simp add: InitLog_done)
next
  case False
  show ?thesis
  proof (cases "net_Dial st ''udp'' ''1.1.1.1:53''")
    case (Inl err)
    then show ?thesis using False by (simp add: InitLog_first_fail [OF False])
  next
    case (Inr conn)
    then show ?thesis using False by (simp add: InitLog_first_ok [OF False])
  qed
qed

lemma InitLog_calls_done: "once_done st \<Longrightarrow> InitLog_calls cs st = st"
proof (induction cs)
  case Nil
  show ?case by simp
next
  case (Cons c cs)
  obtain l e where c: "c = (l, e)" by (cases c)
  from Cons show ?case by (simp add: c InitLog_done)
qed

lemma InitLog_calls_dialled:
  "length (dialled (InitLog_calls cs st)) \<le> Suc (length (dialled st))"
proof (cases cs)
  case Nil
  then show ?thesis by simp
next
  case (Cons c cs')
  obtain l e where c: "c = (l, e)" by (cases c)
  have "InitLog_calls cs st = snd (InitLog l e st)"
    by (simp add: Cons c InitLog_calls_done [OF InitLog_sets_done])
  then show ?thesis by (simp add: InitLog_dialled)
qed

text \<open>
  C1. InitLog is idempotent. A call on a process whose guard is set returns without
  changing anything; every call leaves the guard set; so after a first call, any run of
  later calls, with any arguments, leaves the process, and with it the published
  Logger, as the first call left it. Over any run of calls the body, which dials
  exactly once, runs at most once.
\<close>

theorem C1_InitLog_idempotent:
  "(once_done st \<longrightarrow> InitLog l' e' st = (Returned (), st)) \<and>
   once_done (snd (InitLog l e st)) \<and>
   InitLog_calls cs (snd (InitLog l e st)) = snd (InitLog l e st) \<and>
   Logger (InitLog_calls cs (snd (InitLog l e st))) = Logger (snd (InitLog l e st)) \<and>
   length (dialled (InitLog_calls cs st)) \<le> Suc (length (dialled st))"
proof -
  have fixed: "InitLog_calls cs (snd (InitLog l e st)) = snd (InitLog l e st)"
    by (rule InitLog_calls_done [OF InitLog_sets_done])
  show ?thesis
    by (simp add: fixed InitLog_done InitLog_sets_done InitLog_calls_dialled)
qed

lemma start_proc_first:
  "InitLog l e (start_proc (net_up ip) wd) =
     (Returned (),
      (start_proc (net_up ip) wd)
        \<lparr>CallerMarshalFunc := shortCaller,
         dialled := [(''udp'', ''1.1.1.1:53'')],
         Logger := buildLogger (snd (resolveConfig l e)) (fst (resolveConfig l e)) ip,
         once_done := True\<rparr>)"
proof -
  have a: "\<not> once_done (start_proc (net_up ip) wd)"
    by (simp add: start_proc_def)
  have b: "net_Dial (start_proc (net_up ip) wd) ''udp'' ''1.1.1.1:53'' = Inr \<lparr>LocalAddr_IP = ip\<rparr>"
    by (simp add: start_proc_def net_up_def)
  show ?thesis
    by (simp add: InitLog_first_ok [OF a b]) (simp add: start_proc_def)
qed

theorem C1_InitLog_idempotent_witness:
  "once_done (snd (InitLog ''warn'' ''prod'' (start_proc (net_up [10, 0, 0, 7]) (Some ''/home/app'')))) \<and>
   InitLog ''trace'' ''dev'' (snd (InitLog ''warn'' ''prod'' (start_proc (net_up [10, 0, 0, 7]) (Some ''/home/app''))))
     = (Returned (), snd (InitLog ''warn'' ''prod'' (start_proc (net_up [10, 0, 0, 7]) (Some ''/home/app'')))) \<and>
   min_level (Logger (InitLog_calls [(''trace'', ''dev''), (''panic'', ''qa'')]
       (snd (InitLog ''warn'' ''prod'' (start_proc (net_up [10, 0, 0, 7]) (Some ''/home/app''))))))
     = zerolog_WarnLevel"
proof -
  let ?st = "start_proc (net_up [10, 0, 0, 7]) (Some ''/home/app'')"
  have lvl: "min_level (Logger (snd (InitLog ''warn'' ''prod'' ?st))) = zerolog_WarnLevel"
    by (simp add: start_proc_first resolveConfig_def resolveLevel_def buildLogger_def
        Level_def With_def Timestamp_def IPAddr_def Caller_def zerolog_New_def
        TraceLevel_def DebugLevel_def InfoLevel_def WarnLevel_def Dev_def)
  let ?st1 = "snd (InitLog ''warn'' ''prod'' ?st)"
  note first = C1_InitLog_idempotent
    [where st = ?st and l = "''warn''" and e = "''prod''"
       and cs = "[(''trace'', ''dev''), (''panic'', ''qa'')]"]
  note later = C1_InitLog_idempotent
    [where st = ?st1 and l' = "''trace''" and e' = "''dev''"]
  have d: "once_done ?st1"
    by (rule first [THEN conjunct2, THEN conjunct1])
  have r: "InitLog ''trace'' ''dev'' ?st1 = (Returned (), ?st1)"
    by (rule later [THEN conjunct1, THEN mp, OF d])
  have k: "Logger (InitLog_calls [(''trace'', ''dev''), (''panic'', ''qa'')] ?st1) = Logger ?st1"
    by (rule first [THEN conjunct2, THEN conjunct2, THEN conjunct2, THEN conjunct1])
  from d r show ?thesis
    by (simp only: k lvl simp_thms)
qed

section \<open>Level and output target by environment\<close>

lemma resolveConfig_dev:
  "resolveConfig l Dev =
     (zerolog_TraceLevel,
      zerolog_MultiLevelWriter [zerolog_ConsoleWriter os_Stdout time_RFC3339])"
  by (simp add: resolveConfig_def)

lemma resolveConfig_other:
  "e \<noteq> Dev \<Longrightarrow>
   resolveConfig l e = (resolveLevel l, zerolog_MultiLevelWriter [FileWriter os_Stderr])"
  by (simp add: resolveConfig_def)

lemma buildLogger_eq:
  "buildLogger output logLevel ip =
     \<lparr>writer = Some output, min_level = logLevel,
      base_context = [TimestampField, IPAddrField ''host_ip'' ip, CallerField]\<rparr>"
  by (simp add: buildLogger_def Caller_def IPAddr_def Timestamp_def With_def Level_def
      zerolog_New_def)

text \<open>
  C3. When the body of InitLog runs and the probe succeeds: if the environment is dev,
  the published logger has minimum severity trace, whatever level was requested, and
  writes through a console writer on standard output; for every other environment
  string it writes to standard error and its minimum severity is the resolved level.
\<close>

theorem C3_environment_routing:
  assumes "\<not> once_done st" and "net_Dial st ''udp'' ''1.1.1.1:53'' = Inr conn"
  shows "fst (InitLog l e st) = Returned () \<and>
    (e = ''dev'' \<longrightarrow>
       min_level (Logger (snd (InitLog l e st))) = zerolog_TraceLevel \<and>
       writer (Logger (snd (InitLog l e st))) =
         Some (zerolog_MultiLevelWriter [zerolog_ConsoleWriter os_Stdout time_RFC3339])) \<and>
    (e \<noteq> ''dev'' \<longrightarrow>
       min_level (Logger (snd (InitLog l e st))) = resolveLevel l \<and>
       writer (Logger (snd (InitLog l e st))) =
         Some (zerolog_MultiLevelWriter [FileWriter os_Stderr]))"
proof (cases "e = Dev")
  case True
  then show ?thesis
    by (simp add: InitLog_first_ok [OF assms] resolveConfig_dev buildLogger_eq)
      (simp add: Dev_def)
next
  case False
  then have "e \<noteq> ''dev''" by (simp add: Dev_def)
  with False show ?thesis
    by (simp add: InitLog_first_ok [OF assms] resolveConfig_other buildLogger_eq)
qed

lemma start_proc_fresh: "\<not> once_done (start_proc dial wd)"
  by (simp add: start_proc_def)

lemma start_proc_net_up:
  "net_Dial (start_proc (net_up ip) wd) ''udp'' ''1.1.1.1:53'' = Inr \<lparr>LocalAddr_IP = ip\<rparr>"
  by (simp add: start_proc_def net_up_def)

lemma start_proc_net_down:
  "net_Dial (start_proc net_down wd) ''udp'' ''1.1.1.1:53'' = Inl ''connect: network is unreachable''"
  by (simp add: start_proc_def net_down_def)

theorem C3_environment_routing_witness:
  "\<not> once_done (start_proc (net_up [10, 0, 0, 7]) (Some ''/home/app'')) \<and>
   net_Dial (start_proc (net_up [10, 0, 0, 7]) (Some ''/home/app'')) ''udp'' ''1.1.1.1:53''
     = Inr \<lparr>LocalAddr_IP = [10, 0, 0, 7]\<rparr> \<and>
   min_level (Logger (snd (InitLog ''warn'' ''dev''
       (start_proc (net_up [10, 0, 0, 7]) (Some ''/home/app''))))) = zerolog_TraceLevel \<and>
   writer (Logger (snd (InitLog ''warn'' ''dev''
       (start_proc (net_up [10, 0, 0, 7]) (Some ''/home/app''))))) =
     Some (zerolog_MultiLevelWriter [zerolog_ConsoleWriter os_Stdout time_RFC3339]) \<and>
   min_level (Logger (snd (InitLog ''warn'' ''DEV''
       (start_proc (net_up [10, 0, 0, 7]) (Some ''/home/app''))))) = zerolog_WarnLevel \<and>
   writer (Logger (snd (InitLog ''warn'' ''DEV''
       (start_proc (net_up [10, 0, 0, 7]) (Some ''/home/app''))))) =
     Some (zerolog_MultiLevelWriter [FileWriter os_Stderr])"
proof -
  let ?st = "start_proc (net_up [10, 0, 0, 7]) (Some ''/home/app'')"
  have a: "\<not> once_done ?st" by (rule start_proc_fresh)
  have b: "net_Dial ?st ''udp'' ''1.1.1.1:53'' = Inr \<lparr>LocalAddr_IP = [10, 0, 0, 7]\<rparr>"
    by (rule start_proc_net_up)
  have w: "resolveLevel ''warn'' = zerolog_WarnLevel"
    by (simp add: resolveLevel_def LogLevel_defs)
  have ne: "''DEV'' \<noteq> ''dev''" by simp
  note dev = C3_environment_routing [OF a b, of "''warn''" "''dev''"]
  note other = C3_environment_routing [OF a b, of "''warn''" "''DEV''"]
  from dev have d1: "min_level (Logger (snd (InitLog ''warn'' ''dev'' ?st))) = zerolog_TraceLevel"
    and d2: "writer (Logger (snd (InitLog ''warn'' ''dev'' ?st))) =
      Some (zerolog_MultiLevelWriter [zerolog_ConsoleWriter os_Stdout time_RFC3339])"
    by simp_all
  from other ne have o1: "min_level (Logger (snd (InitLog ''warn'' ''DEV'' ?st))) = resolveLevel ''warn''"
    and o2: "writer (Logger (snd (InitLog ''warn'' ''DEV'' ?st))) =
      Some (zerolog_MultiLevelWriter [FileWriter os_Stderr])"
    by simp_all
  from a b d1 d2 o1 o2 w show ?thesis by (simp only: simp_thms)
qed

section \<open>The probe fails\<close>

text \<open>
  What finalizing the event would have done on a logger that has a writer and does not
  filter fatal records out: the record is written and the process exits with status 1.
\<close>

lemma fatal_finalized:
  assumes "writer (Logger st) = Some wr" and "min_level (Logger st) \<noteq> zerolog_PanicLevel"
  shows "Msg m (Event_Err err (Logger_Fatal (Logger st))) st =
     (Exited 1,
      st\<lparr>written := written st @
         [\<lparr>line_writer = wr, line_level = zerolog_FatalLevel,
           line_fields = base_context (Logger st) @ [ErrField err], line_message = m\<rparr>]\<rparr>)"
proof -
  have "severity (min_level (Logger st)) \<le> 5"
    using assms(2) by (cases "min_level (Logger st)") simp_all
  then show ?thesis
    using assms(1)
    by (simp add: Msg_def Event_Err_def Logger_Fatal_def newEvent_def not_less)
qed

text \<open>
  C8. When the probe fails, getLocalIP starts a fatal event and attaches the error but
  never finalizes it: no record is written, the process does not exit, and the Logger
  variable is untouched. Execution goes on to the deferred Close on the nil connection,
  and the call ends in a nil-pointer panic, which InitLog passes on to its caller.
\<close>

theorem C8_probe_failure_unfinalized:
  assumes "net_Dial st ''udp'' ''1.1.1.1:53'' = Inl err"
  shows "fst (getLocalIP st) = Panicked NilPointerDereference \<and>
    fst (getLocalIP st) \<noteq> Exited n \<and>
    written (snd (getLocalIP st)) = written st \<and>
    Logger (snd (getLocalIP st)) = Logger st \<and>
    (\<not> once_done st \<longrightarrow>
       fst (InitLog l e st) = Panicked NilPointerDereference \<and>
       written (snd (InitLog l e st)) = written st)"
  by (simp add: getLocalIP_fail [OF assms] InitLog_first_fail [OF _ assms])

theorem C8_probe_failure_unfinalized_witness:
  "net_Dial (start_proc net_down None) ''udp'' ''1.1.1.1:53''
     = Inl ''connect: network is unreachable'' \<and>
   \<not> once_done (start_proc net_down None) \<and>
   fst (getLocalIP (start_proc net_down None)) = Panicked NilPointerDereference \<and>
   written (snd (getLocalIP (start_proc net_down None))) = [] \<and>
   fst (InitLog ''info'' ''prod'' (start_proc net_down None)) = Panicked NilPointerDereference"
proof -
  have w: "written (start_proc net_down None) = []"
    by (simp add: start_proc_def)
  from C8_probe_failure_unfinalized
    [OF start_proc_net_down, where wd1 = None and l = "''info''" and e = "''prod''"]
    start_proc_fresh [of net_down None] start_proc_net_down [of None]
  show ?thesis
    by (simp add: w)
qed

text \<open>
  C5, evaluated where it fails: a fresh process without network calls
  \<^verbatim>\<open>InitLog("info", "prod")\<close>. The call panics on the nil connection; nothing has been
  written, at fatal level or any other, no exit status has been set, and the Logger is
  still the zero value although the guard is now set.
\<close>

theorem C5_probe_failure_run:
  "InitLog ''info'' ''prod'' (start_proc net_down (Some ''/home/app'')) =
     (Panicked NilPointerDereference,
      \<lparr>once_done = True, Logger = zero_Logger, CallerMarshalFunc = shortCaller,
       net_Dial = net_down, dialled = [(''udp'', ''1.1.1.1:53'')],
       cwd = Some ''/home/app'', written = []\<rparr>)"
  by (simp add: InitLog_first_fail [OF start_proc_fresh start_proc_net_down])
    (simp add: start_proc_def)

section \<open>The trailing statement of the body\<close>

text \<open>
  C9. The statement \<^verbatim>\<open>Logger.With().Caller()\<close> that ends the body has no effect: the
  Logger that InitLog publishes is the value of the builder chain before it, with the
  chosen writer and level and the context of timestamp, host address and one caller
  capture, and the statement, run again on any process, changes nothing.
\<close>

theorem C9_trailing_statement_no_effect:
  assumes "\<not> once_done st" and "net_Dial st ''udp'' ''1.1.1.1:53'' = Inr conn"
  shows "Logger (snd (InitLog l e st)) =
      buildLogger (snd (resolveConfig l e)) (fst (resolveConfig l e)) (LocalAddr_IP conn) \<and>
    base_context (Logger (snd (InitLog l e st))) =
      [TimestampField, IPAddrField ''host_ip'' (LocalAddr_IP conn), CallerField] \<and>
    discard (Caller (With (Logger (snd (InitLog l e st))))) (snd (InitLog l e st)) =
      snd (InitLog l e st)"
  by (simp add: InitLog_first_ok [OF assms] buildLogger_eq discard_def)

theorem C9_trailing_statement_no_effect_witness:
  "\<not> once_done (start_proc (net_up [192, 168, 1, 20]) (Some ''/srv'')) \<and>
   net_Dial (start_proc (net_up [192, 168, 1, 20]) (Some ''/srv'')) ''udp'' ''1.1.1.1:53''
     = Inr \<lparr>LocalAddr_IP = [192, 168, 1, 20]\<rparr> \<and>
   Logger (snd (InitLog ''error'' ''stage'' (start_proc (net_up [192, 168, 1, 20]) (Some ''/srv'')))) =
     \<lparr>writer = Some (zerolog_MultiLevelWriter [FileWriter os_Stderr]),
      min_level = zerolog_ErrorLevel,
      base_context = [TimestampField, IPAddrField ''host_ip'' [192, 168, 1, 20], CallerField]\<rparr>"
proof -
  let ?st = "start_proc (net_up [192, 168, 1, 20]) (Some ''/srv'')"
  have a: "\<not> once_done ?st" by (rule start_proc_fresh)
  have b: "net_Dial ?st ''udp'' ''1.1.1.1:53'' = Inr \<lparr>LocalAddr_IP = [192, 168, 1, 20]\<rparr>"
    by (rule start_proc_net_up)
  have c: "resolveConfig ''error'' ''stage'' =
      (zerolog_ErrorLevel, zerolog_MultiLevelWriter [FileWriter os_Stderr])"
    by (simp add: resolveConfig_def resolveLevel_def LogLevel_defs Env_defs)
  from C9_trailing_statement_no_effect [OF a b, of "''error''" "''stage''"] a b
  show ?thesis
    by (simp add: c buildLogger_eq)
qed

section \<open>The two versions of the resolution\<close>

text \<open>
  C10. The current source and the earlier one resolve every pair of level and
  environment strings alike: the same level (the seven tags, info by default, trace
  under dev) and the same output target (console on standard output under dev, standard
  error otherwise); the loggers their chains build from these are equal too.
\<close>

theorem C10_versions_agree:
  "resolveLevel_prev l = resolveLevel l \<and>
   resolveConfig_prev l e = resolveConfig l e \<and>
   fst (resolveConfig_prev l e) = (if e = ''dev'' then zerolog_TraceLevel else resolveLevel l) \<and>
   snd (resolveConfig_prev l e) =
     (if e = ''dev'' then zerolog_MultiLevelWriter [zerolog_ConsoleWriter os_Stdout time_RFC3339]
      else zerolog_MultiLevelWriter [FileWriter os_Stderr]) \<and>
   buildLogger_prev (snd (resolveConfig_prev l e)) (fst (resolveConfig_prev l e)) ip =
     buildLogger (snd (resolveConfig l e)) (fst (resolveConfig l e)) ip"
proof -
  have lv: "resolveLevel_prev l = resolveLevel l"
    by (simp add: resolveLevel_prev_def resolveLevel_def)
  have cf: "resolveConfig_prev l e = resolveConfig l e"
    by (simp add: resolveConfig_prev_def resolveConfig_def lv)
  have bl: "buildLogger_prev out lvl ip = buildLogger out lvl ip" for out lvl
    by (simp add: buildLogger_prev_def buildLogger_def zerolog_Level_conv_def)
  show ?thesis
    by (simp add: lv cf bl) (simp add: resolveConfig_def Dev_def)
qed

section \<open>The caller formatter\<close>

lemma InitLog_installs_shortCaller:
  assumes "\<not> once_done st"
  shows "CallerMarshalFunc (snd (InitLog l e st)) = shortCaller"
proof (cases "net_Dial st ''udp'' ''1.1.1.1:53''")
  case (Inl err)
  then show ?thesis by (simp add: InitLog_first_fail [OF assms])
next
  case (Inr conn)
  then show ?thesis by (simp add: InitLog_first_ok [OF assms])
qed

lemma TrimPrefix_append: "strings_TrimPrefix (pre @ rest) pre = rest"
  by (simp add: strings_TrimPrefix_def strings_HasPrefix_def)

lemma TrimPrefix_no_prefix: "\<not> strings_HasPrefix s pre \<Longrightarrow> strings_TrimPrefix s pre = s"
  by (simp add: strings_TrimPrefix_def)

lemma shortCaller_under: "shortCaller (Some d) pc (d @ ''/'' @ rel) line = rel @ '':'' @ strconv_Itoa line"
proof -
  have "strings_TrimPrefix (d @ ''/'' @ rel) (d @ ''/'') = rel"
    using TrimPrefix_append [of "d @ ''/''" rel] by simp
  then show ?thesis
    by (simp add: shortCaller_def os_Getwd_def)
qed

lemma shortCaller_outside:
  "\<not> strings_HasPrefix file (d @ ''/'') \<Longrightarrow>
   shortCaller (Some d) pc file line = file @ '':'' @ strconv_Itoa line"
  by (simp add: shortCaller_def os_Getwd_def TrimPrefix_no_prefix)

text \<open>
  C6, as the specification states it, fails: the formatter does not keep the working
  directory of the time InitLog ran. A process initialized in /home/app that then
  changes its directory to /tmp renders a file under /home/app with its full path,
  where a directory captured once would still be stripped.
\<close>

theorem C6_captured_once_counterexample:
  "render_caller
     (os_Chdir ''/tmp''
        (snd (InitLog ''info'' ''prod'' (start_proc (net_up [10, 0, 0, 7]) (Some ''/home/app'')))))
     0 ''/home/app/main.go'' 12 = ''/home/app/main.go:12'' \<and>
   shortCaller_captured ''/home/app'' ''/home/app/main.go'' 12 = ''main.go:12'' \<and>
   render_caller
     (os_Chdir ''/tmp''
        (snd (InitLog ''info'' ''prod'' (start_proc (net_up [10, 0, 0, 7]) (Some ''/home/app'')))))
     0 ''/home/app/main.go'' 12 \<noteq> shortCaller_captured ''/home/app'' ''/home/app/main.go'' 12"
proof -
  have line: "strconv_Itoa 12 = ''12''"
    by (simp add: strconv_Itoa_def decimal.simps digit_char_def)
  have f: "CallerMarshalFunc
      (snd (InitLog ''info'' ''prod'' (start_proc (net_up [10, 0, 0, 7]) (Some ''/home/app''))))
      = shortCaller"
    by (rule InitLog_installs_shortCaller [OF start_proc_fresh])
  have code: "render_caller
     (os_Chdir ''/tmp''
        (snd (InitLog ''info'' ''prod'' (start_proc (net_up [10, 0, 0, 7]) (Some ''/home/app'')))))
     0 ''/home/app/main.go'' 12 = ''/home/app/main.go:12''"
    by (simp add: render_caller_def os_Chdir_def f)
      (simp add: shortCaller_def os_Getwd_def strings_TrimPrefix_def strings_HasPrefix_def line)
  have spec: "shortCaller_captured ''/home/app'' ''/home/app/main.go'' 12 = ''main.go:12''"
    by (simp add: shortCaller_captured_def strings_TrimPrefix_def strings_HasPrefix_def line)
  show ?thesis
    unfolding code spec by simp
qed

lemma HasPrefix_iff: "strings_HasPrefix s pre \<longleftrightarrow> (\<exists>rest. s = pre @ rest)"
proof
  assume "strings_HasPrefix s pre"
  then have "s = pre @ drop (length pre) s"
    by (metis append_take_drop_id strings_HasPrefix_def)
  then show "\<exists>rest. s = pre @ rest" ..
next
  assume "\<exists>rest. s = pre @ rest"
  then show "strings_HasPrefix s pre"
    by (auto simp: strings_HasPrefix_def)
qed

lemma shortCaller_has_prefix:
  "strings_HasPrefix file (fst (os_Getwd wd) @ ''/'') \<Longrightarrow>
   shortCaller wd pc file line =
     drop (Suc (length (fst (os_Getwd wd)))) file @ '':'' @ strconv_Itoa line"
  by (simp add: shortCaller_def strings_TrimPrefix_def)

lemma shortCaller_no_prefix:
  "\<not> strings_HasPrefix file (fst (os_Getwd wd) @ ''/'') \<Longrightarrow>
   shortCaller wd pc file line = file @ '':'' @ strconv_Itoa line"
  by (simp add: shortCaller_def strings_TrimPrefix_def)

lemma shortCaller_lookup_failed:
  "shortCaller None pc (''/'' @ rel) line = rel @ '':'' @ strconv_Itoa line"
proof -
  have "strings_TrimPrefix (''/'' @ rel) ''/'' = rel"
    by (rule TrimPrefix_append)
  then show ?thesis
    by (simp add: shortCaller_def os_Getwd_def)
qed

text \<open>
  C6, amended. Whenever the body of InitLog runs it installs the formatter; from then
  on, as long as nobody replaces it, every rendering of a caller field looks the
  working directory up at that moment (the empty string when the lookup fails), takes
  that directory followed by a slash as the prefix and compares it with the file path
  as text: a path that begins with the prefix is rendered without it, every other path
  is rendered whole, and a colon and the decimal line number follow in both cases. So
  a path written as the directory, a slash and a rest is rendered as the rest; a path
  that does not begin with the directory and a slash keeps its text, which with the
  directory \<^verbatim>\<open>/\<close> (prefix \<^verbatim>\<open>//\<close>) is every ordinary absolute path; and after a
  failed lookup the prefix is the slash alone, so a path loses its leading slash.
\<close>

theorem C6_caller_formatter:
  assumes "\<not> once_done st"
    and "CallerMarshalFunc st' = CallerMarshalFunc (snd (InitLog l e st))"
  shows "render_caller st' pc src line =
      strings_TrimPrefix src (fst (os_Getwd (cwd st')) @ ''/'') @ '':'' @ strconv_Itoa line \<and>
    (cwd st' = Some d \<longrightarrow>
       render_caller st' pc (d @ ''/'' @ rel) line = rel @ '':'' @ strconv_Itoa line) \<and>
    (cwd st' = Some d \<and> \<not> strings_HasPrefix src (d @ ''/'') \<longrightarrow>
       render_caller st' pc src line = src @ '':'' @ strconv_Itoa line) \<and>
    (strings_HasPrefix src (fst (os_Getwd (cwd st')) @ ''/'') \<longrightarrow>
       render_caller st' pc src line =
         drop (Suc (length (fst (os_Getwd (cwd st'))))) src @ '':'' @ strconv_Itoa line) \<and>
    (\<not> strings_HasPrefix src (fst (os_Getwd (cwd st')) @ ''/'') \<longrightarrow>
       render_caller st' pc src line = src @ '':'' @ strconv_Itoa line) \<and>
    (cwd st' = None \<longrightarrow>
       render_caller st' pc (''/'' @ rel) line = rel @ '':'' @ strconv_Itoa line) \<and>
    (strings_HasPrefix src (fst (os_Getwd (cwd st')) @ ''/'') \<longleftrightarrow>
       (\<exists>rest. src = fst (os_Getwd (cwd st')) @ ''/'' @ rest))"
proof -
  have f: "CallerMarshalFunc st' = shortCaller"
    using assms(2) InitLog_installs_shortCaller [OF assms(1)] by simp
  have general: "render_caller st' pc src line =
      strings_TrimPrefix src (fst (os_Getwd (cwd st')) @ ''/'') @ '':'' @ strconv_Itoa line"
    by (simp add: render_caller_def f shortCaller_def)
  have under: "render_caller st' pc (d @ ''/'' @ rel) line = rel @ '':'' @ strconv_Itoa line"
    if "cwd st' = Some d"
    using that by (simp only: render_caller_def f shortCaller_under)
  have outside: "render_caller st' pc src line = src @ '':'' @ strconv_Itoa line"
    if "cwd st' = Some d" and "\<not> strings_HasPrefix src (d @ ''/'')"
    using that by (simp add: render_caller_def f shortCaller_outside)
  have stripped: "render_caller st' pc src line =
      drop (Suc (length (fst (os_Getwd (cwd st'))))) src @ '':'' @ strconv_Itoa line"
    if "strings_HasPrefix src (fst (os_Getwd (cwd st')) @ ''/'')"
    using that by (simp add: render_caller_def f shortCaller_has_prefix)
  have whole: "render_caller st' pc src line = src @ '':'' @ strconv_Itoa line"
    if "\<not> strings_HasPrefix src (fst (os_Getwd (cwd st')) @ ''/'')"
    using that by (simp add: render_caller_def f shortCaller_no_prefix)
  have failed: "render_caller st' pc (''/'' @ rel) line = rel @ '':'' @ strconv_Itoa line"
    if "cwd st' = None"
    using that by (simp only: render_caller_def f shortCaller_lookup_failed)
  have begins: "strings_HasPrefix src (fst (os_Getwd (cwd st')) @ ''/'') \<longleftrightarrow>
      (\<exists>rest. src = fst (os_Getwd (cwd st')) @ ''/'' @ rest)"
    by (simp only: HasPrefix_iff append_assoc)
  show ?thesis
  proof (intro conjI impI)
    show "render_caller st' pc src line =
      strings_TrimPrefix src (fst (os_Getwd (cwd st')) @ ''/'') @ '':'' @ strconv_Itoa line"
      by (rule general)
    show "render_caller st' pc (d @ ''/'' @ rel) line = rel @ '':'' @ strconv_Itoa line"
      if "cwd st' = Some d" using that by (rule under)
    show "render_caller st' pc src line = src @ '':'' @ strconv_Itoa line"
      if "cwd st' = Some d \<and> \<not> strings_HasPrefix src (d @ ''/'')"
      using that outside by (elim conjE)
    show "render_caller st' pc src line =
      drop (Suc (length (fst (os_Getwd (cwd st'))))) src @ '':'' @ strconv_Itoa line"
      if "strings_HasPrefix src (fst (os_Getwd (cwd st')) @ ''/'')"
      using that by (rule stripped)
    show "render_caller st' pc src line = src @ '':'' @ strconv_Itoa line"
      if "\<not> strings_HasPrefix src (fst (os_Getwd (cwd st')) @ ''/'')"
      using that by (rule whole)
    show "render_caller st' pc (''/'' @ rel) line = rel @ '':'' @ strconv_Itoa line"
      if "cwd st' = None" using that by (rule failed)
    show "strings_HasPrefix src (fst (os_Getwd (cwd st')) @ ''/'') \<longleftrightarrow>
      (\<exists>rest. src = fst (os_Getwd (cwd st')) @ ''/'' @ rest)"
      by (rule begins)
  qed
qed

theorem C6_caller_formatter_witness:
  "\<not> once_done (start_proc (net_up [10, 0, 0, 7]) (Some ''/home/app'')) \<and>
   CallerMarshalFunc
     (os_Chdir ''/tmp''
        (snd (InitLog ''info'' ''prod'' (start_proc (net_up [10, 0, 0, 7]) (Some ''/home/app'')))))
     = CallerMarshalFunc
        (snd (InitLog ''info'' ''prod'' (start_proc (net_up [10, 0, 0, 7]) (Some ''/home/app'')))) \<and>
   cwd (os_Chdir ''/tmp''
        (snd (InitLog ''info'' ''prod'' (start_proc (net_up [10, 0, 0, 7]) (Some ''/home/app'')))))
     = Some ''/tmp'' \<and>
   strings_HasPrefix ''/tmp/job/run.go''
     (fst (os_Getwd (cwd (os_Chdir ''/tmp''
        (snd (InitLog ''info'' ''prod'' (start_proc (net_up [10, 0, 0, 7]) (Some ''/home/app''))))))) @ ''/'') \<and>
   render_caller
     (os_Chdir ''/tmp''
        (snd (InitLog ''info'' ''prod'' (start_proc (net_up [10, 0, 0, 7]) (Some ''/home/app'')))))
     0 ''/tmp/job/run.go'' 7 = ''job/run.go:7'' \<and>
   \<not> strings_HasPrefix ''/home/app/main.go'' (''/tmp'' @ ''/'') \<and>
   render_caller
     (os_Chdir ''/tmp''
        (snd (InitLog ''info'' ''prod'' (start_proc (net_up [10, 0, 0, 7]) (Some ''/home/app'')))))
     0 ''/home/app/main.go'' 12 = ''/home/app/main.go:12'' \<and>
   \<not> strings_HasPrefix ''/home/app/main.go''
     (fst (os_Getwd (cwd (os_Chdir ''/''
        (snd (InitLog ''info'' ''prod'' (start_proc (net_up [10, 0, 0, 7]) (Some ''/home/app''))))))) @ ''/'') \<and>
   render_caller
     (os_Chdir ''/''
        (snd (InitLog ''info'' ''prod'' (start_proc (net_up [10, 0, 0, 7]) (Some ''/home/app'')))))
     0 ''/home/app/main.go'' 12 = ''/home/app/main.go:12'' \<and>
   \<not> once_done (start_proc (net_up [10, 0, 0, 7]) None) \<and>
   cwd (snd (InitLog ''info'' ''prod'' (start_proc (net_up [10, 0, 0, 7]) None))) = None \<and>
   render_caller (snd (InitLog ''info'' ''prod'' (start_proc (net_up [10, 0, 0, 7]) None)))
     0 ''/home/app/main.go'' 12 = ''home/app/main.go:12''"
proof -
  let ?st = "start_proc (net_up [10, 0, 0, 7]) (Some ''/home/app'')"
  let ?tmp = "os_Chdir ''/tmp'' (snd (InitLog ''info'' ''prod'' ?st))"
  let ?root = "os_Chdir ''/'' (snd (InitLog ''info'' ''prod'' ?st))"
  let ?stn = "start_proc (net_up [10, 0, 0, 7]) None"
  let ?none = "snd (InitLog ''info'' ''prod'' ?stn)"
  have l7: "strconv_Itoa 7 = ''7''"
    by (simp add: strconv_Itoa_def decimal.simps digit_char_def)
  have l12: "strconv_Itoa 12 = ''12''"
    by (simp add: strconv_Itoa_def decimal.simps digit_char_def)
  have a: "\<not> once_done ?st" by (rule start_proc_fresh)
  have an: "\<not> once_done ?stn" by (rule start_proc_fresh)
  have b: "CallerMarshalFunc ?tmp = CallerMarshalFunc (snd (InitLog ''info'' ''prod'' ?st))"
    by (simp add: os_Chdir_def)
  have br: "CallerMarshalFunc ?root = CallerMarshalFunc (snd (InitLog ''info'' ''prod'' ?st))"
    by (simp add: os_Chdir_def)
  have bn: "CallerMarshalFunc ?none = CallerMarshalFunc (snd (InitLog ''info'' ''prod'' ?stn))"
    by (rule refl)
  have c: "cwd ?tmp = Some ''/tmp''"
    by (simp add: os_Chdir_def)
  have cr: "cwd ?root = Some ''/''"
    by (simp add: os_Chdir_def)
  have cn: "cwd ?none = None"
    by (simp add: start_proc_first) (simp add: start_proc_def)
  have h: "\<not> strings_HasPrefix ''/home/app/main.go'' (''/tmp'' @ ''/'')"
    by (simp add: strings_HasPrefix_def)
  have hp: "strings_HasPrefix ''/tmp/job/run.go'' (fst (os_Getwd (cwd ?tmp)) @ ''/'')"
    by (simp add: c os_Getwd_def strings_HasPrefix_def)
  have hr: "\<not> strings_HasPrefix ''/home/app/main.go'' (fst (os_Getwd (cwd ?root)) @ ''/'')"
    by (simp add: cr os_Getwd_def strings_HasPrefix_def)
  note under = C6_caller_formatter
    [OF a b, where d = "''/tmp''" and rel = "''job/run.go''" and line = 7 and pc = 0,
      THEN conjunct2, THEN conjunct1, THEN mp, OF c]
  note outside = C6_caller_formatter
    [OF a b, where d = "''/tmp''" and src = "''/home/app/main.go''" and line = 12 and pc = 0,
      THEN conjunct2, THEN conjunct2, THEN conjunct1, THEN mp, OF conjI, OF c h]
  note stripped = C6_caller_formatter
    [OF a b, where src = "''/tmp/job/run.go''" and line = 7 and pc = 0,
      THEN conjunct2, THEN conjunct2, THEN conjunct2, THEN conjunct1, THEN mp, OF hp]
  note whole = C6_caller_formatter
    [OF a br, where src = "''/home/app/main.go''" and line = 12 and pc = 0,
      THEN conjunct2, THEN conjunct2, THEN conjunct2, THEN conjunct2, THEN conjunct1,
      THEN mp, OF hr]
  note failed = C6_caller_formatter
    [OF an bn, where rel = "''home/app/main.go''" and line = 12 and pc = 0,
      THEN conjunct2, THEN conjunct2, THEN conjunct2, THEN conjunct2, THEN conjunct2,
      THEN conjunct1, THEN mp, OF cn]
  have r1: "render_caller ?tmp 0 ''/tmp/job/run.go'' 7 = ''job/run.go:7''"
    using under by (simp add: l7)
  have r1': "render_caller ?tmp 0 ''/tmp/job/run.go'' 7 = ''job/run.go:7''"
    using stripped by (simp add: l7 c os_Getwd_def)
  have r2: "render_caller ?tmp 0 ''/home/app/main.go'' 12 = ''/home/app/main.go:12''"
    using outside by (simp add: l12)
  have r3: "render_caller ?root 0 ''/home/app/main.go'' 12 = ''/home/app/main.go:12''"
    using whole by (simp add: l12)
  have r4: "render_caller ?none 0 ''/home/app/main.go'' 12 = ''home/app/main.go:12''"
    using failed by (simp add: l12)
  from a b c hp r1 r1' h r2 hr r3 an cn r4 show ?thesis
    by (simp only: simp_thms)
qed

section \<open>UpdateContext\<close>

lemma entry_point_newEvent: "entry_point lvl st = newEvent (Logger st) lvl"
  by (cases lvl)
    (simp_all add: Trace_def Debug_def Info_def Warn_def Error_def Fatal_def Panic_def
      Logger_Trace_def Logger_Debug_def Logger_Info_def Logger_Warn_def Logger_Error_def
      Logger_Fatal_def Logger_Panic_def)

lemma written_Msg:
  "written (snd (Msg m e st)) =
     (case e of
        None \<Rightarrow> written st
      | Some ev \<Rightarrow> written st @
          [\<lparr>line_writer = ev_writer ev, line_level = ev_level ev,
            line_fields = ev_fields ev, line_message = m\<rparr>])"
  by (simp add: Msg_def Let_def split: option.split)

lemma written_emit:
  assumes "writer (Logger st) = Some wr" and "severity (min_level (Logger st)) \<le> severity lvl"
  shows "written (snd (Msg m (entry_point lvl st) st)) =
     written st @
       [\<lparr>line_writer = wr, line_level = lvl,
         line_fields = base_context (Logger st), line_message = m\<rparr>]"
  using assms by (simp add: written_Msg entry_point_newEvent newEvent_def not_less)

lemma UpdateContext_Logger:
  "Logger (UpdateContext update st) =
     (Logger st)\<lparr>base_context := base_context (Context_Logger (update (Context (Logger st))))\<rparr>"
  by (simp add: UpdateContext_def Logger_UpdateContext_def)

lemma UpdateContext_written: "written (UpdateContext update st) = written st"
  by (simp add: UpdateContext_def)

lemma Str_context:
  "base_context (Context_Logger (Str k v (Context lg))) = base_context lg @ [StrField k v]"
  by (simp add: Str_def)

text \<open>
  C7. UpdateContext applies the mutator to the base context of the published logger
  and stores the result in that same logger: writer and minimum severity stay, and
  nothing is written by the call. For a logger with a writer and a severity it lets
  through, a record emitted through an entry point after the call carries the context
  the mutator returned, so a field the mutator adds is in it, while a record emitted
  before the call carries the context without that addition.
\<close>

theorem C7_UpdateContext_in_place:
  assumes "writer (Logger st) = Some wr" and "severity (min_level (Logger st)) \<le> severity lvl"
  shows "writer (Logger (UpdateContext update st)) = writer (Logger st) \<and>
    min_level (Logger (UpdateContext update st)) = min_level (Logger st) \<and>
    base_context (Logger (UpdateContext update st)) =
      base_context (Context_Logger (update (Context (Logger st)))) \<and>
    written (UpdateContext update st) = written st \<and>
    written (snd (Msg m (entry_point lvl (UpdateContext update st)) (UpdateContext update st))) =
      written st @
        [\<lparr>line_writer = wr, line_level = lvl,
          line_fields = base_context (Context_Logger (update (Context (Logger st)))),
          line_message = m\<rparr>] \<and>
    written (snd (Msg m (entry_point lvl st) st)) =
      written st @
        [\<lparr>line_writer = wr, line_level = lvl,
          line_fields = base_context (Logger st), line_message = m\<rparr>] \<and>
    line_fields (last (written
        (snd (Msg m (entry_point lvl (UpdateContext (Str k v) st)) (UpdateContext (Str k v) st)))))
      = base_context (Logger st) @ [StrField k v] \<and>
    (StrField k v \<notin> set (base_context (Logger st)) \<longrightarrow>
       StrField k v \<notin> set (line_fields (last (written (snd (Msg m (entry_point lvl st) st))))))"
proof -
  have after: "written (snd (Msg m (entry_point lvl (UpdateContext u st)) (UpdateContext u st))) =
      written st @
        [\<lparr>line_writer = wr, line_level = lvl,
          line_fields = base_context (Context_Logger (u (Context (Logger st)))),
          line_message = m\<rparr>]" for u
  proof -
    have w: "writer (Logger (UpdateContext u st)) = Some wr"
      using assms(1) by (simp add: UpdateContext_Logger)
    have s: "severity (min_level (Logger (UpdateContext u st))) \<le> severity lvl"
      using assms(2) by (simp add: UpdateContext_Logger)
    show ?thesis
      by (simp add: written_emit [OF w s] UpdateContext_written UpdateContext_Logger)
  qed
  have before: "written (snd (Msg m (entry_point lvl st) st)) =
      written st @
        [\<lparr>line_writer = wr, line_level = lvl,
          line_fields = base_context (Logger st), line_message = m\<rparr>]"
    by (rule written_emit [OF assms])
  show ?thesis
    by (simp add: after before UpdateContext_Logger UpdateContext_written Str_context)
qed

theorem C7_UpdateContext_in_place_witness:
  "writer (Logger (snd (InitLog ''info'' ''prod'' (start_proc (net_up [10, 0, 0, 7]) None))))
     = Some (zerolog_MultiLevelWriter [FileWriter os_Stderr]) \<and>
   severity (min_level (Logger (snd (InitLog ''info'' ''prod'' (start_proc (net_up [10, 0, 0, 7]) None)))))
     \<le> severity zerolog_WarnLevel \<and>
   StrField ''svc'' ''api'' \<notin> set (base_context
     (Logger (snd (InitLog ''info'' ''prod'' (start_proc (net_up [10, 0, 0, 7]) None))))) \<and>
   written (snd (Msg ''up''
       (entry_point zerolog_WarnLevel (UpdateContext (Str ''svc'' ''api'')
          (snd (InitLog ''info'' ''prod'' (start_proc (net_up [10, 0, 0, 7]) None)))))
       (UpdateContext (Str ''svc'' ''api'')
          (snd (InitLog ''info'' ''prod'' (start_proc (net_up [10, 0, 0, 7]) None)))))) =
     [\<lparr>line_writer = zerolog_MultiLevelWriter [FileWriter os_Stderr],
       line_level = zerolog_WarnLevel,
       line_fields = [TimestampField, IPAddrField ''host_ip'' [10, 0, 0, 7], CallerField,
                      StrField ''svc'' ''api''],
       line_message = ''up''\<rparr>] \<and>
   StrField ''svc'' ''api'' \<notin> set (line_fields (last (written (snd (Msg ''up''
       (entry_point zerolog_WarnLevel
          (snd (InitLog ''info'' ''prod'' (start_proc (net_up [10, 0, 0, 7]) None))))
       (snd (InitLog ''info'' ''prod'' (start_proc (net_up [10, 0, 0, 7]) None)))))))) "
proof -
  let ?st = "snd (InitLog ''info'' ''prod'' (start_proc (net_up [10, 0, 0, 7]) None))"
  have lg: "Logger ?st =
      \<lparr>writer = Some (zerolog_MultiLevelWriter [FileWriter os_Stderr]),
       min_level = zerolog_InfoLevel,
       base_context = [TimestampField, IPAddrField ''host_ip'' [10, 0, 0, 7], CallerField]\<rparr>"
    by (simp add: start_proc_first buildLogger_eq resolveConfig_def resolveLevel_def
        LogLevel_defs Env_defs)
  have wr: "written ?st = []"
    by (simp add: start_proc_first) (simp add: start_proc_def)
  have a: "writer (Logger ?st) = Some (zerolog_MultiLevelWriter [FileWriter os_Stderr])"
    by (simp add: lg)
  have b: "severity (min_level (Logger ?st)) \<le> severity zerolog_WarnLevel"
    by (simp add: lg)
  have c: "StrField ''svc'' ''api'' \<notin> set (base_context (Logger ?st))"
    by (simp add: lg)
  note inst = C7_UpdateContext_in_place
    [OF a b, where update = "Str ''svc'' ''api''" and k = "''svc''" and v = "''api''"
      and m = "''up''"]
  have after: "written (snd (Msg ''up''
       (entry_point zerolog_WarnLevel (UpdateContext (Str ''svc'' ''api'') ?st))
       (UpdateContext (Str ''svc'' ''api'') ?st))) =
     [\<lparr>line_writer = zerolog_MultiLevelWriter [FileWriter os_Stderr],
       line_level = zerolog_WarnLevel,
       line_fields = [TimestampField, IPAddrField ''host_ip'' [10, 0, 0, 7], CallerField,
                      StrField ''svc'' ''api''],
       line_message = ''up''\<rparr>]"
    using inst [THEN conjunct2, THEN conjunct2, THEN conjunct2, THEN conjunct2, THEN conjunct1]
    by (simp add: wr Str_context lg)
  have before: "StrField ''svc'' ''api'' \<notin> set (line_fields (last (written (snd (Msg ''up''
       (entry_point zerolog_WarnLevel ?st) ?st)))))"
    by (rule inst [THEN conjunct2, THEN conjunct2, THEN conjunct2, THEN conjunct2,
          THEN conjunct2, THEN conjunct2, THEN conjunct2, THEN mp, OF c])
  from a b c after before show ?thesis
    by (simp only: simp_thms)
qed

end
